theory Spec2Isabelle
  imports Main "HOL-Library.Sublist"
begin

section \<open>Bytes and the Python primitives used by the transport layer\<close>

text \<open>
  A Python \<open>bytes\<close> value is a list of 8-bit characters. A Python \<open>str\<close> is represented by
  its UTF-8 encoding, so \<open>len(body)\<close> of an encoded body is the length of the list.
\<close>

type_synonym bytes = string

abbreviation CR :: char where "CR \<equiv> CHR 0x0D"
abbreviation LF :: char where "LF \<equiv> CHR 0x0A"
abbreviation DQ :: char where "DQ \<equiv> CHR 0x22"
abbreviation BSL :: char where "BSL \<equiv> CHR 0x5C"

text \<open>\<open>bytes.find(sub)\<close>: index of the first occurrence, \<open>None\<close> for Python's \<open>-1\<close>.\<close>

fun find_sub :: "bytes \<Rightarrow> bytes \<Rightarrow> nat option" where
  "find_sub sub [] = (if sub = [] then Some 0 else None)"
| "find_sub sub (x # xs) =
     (if prefix sub (x # xs) then Some 0 else map_option Suc (find_sub sub xs))"

text \<open>The whitespace of \<open>bytes.strip()\<close> and \<open>bytes.lstrip()\<close>: space, tab, LF, CR, VT, FF.\<close>

definition bytes_space :: "char \<Rightarrow> bool" where
  "bytes_space c = (c \<in> set [CHR 0x20, CHR 0x09, LF, CR, CHR 0x0B, CHR 0x0C])"

text \<open>
  The whitespace of \<open>str.strip()\<close> on an ASCII string: the six above and the four
  separators \<open>0x1C\<close> to \<open>0x1F\<close>.
\<close>

definition str_space :: "char \<Rightarrow> bool" where
  "str_space c = (bytes_space c \<or> c \<in> set [CHR 0x1C, CHR 0x1D, CHR 0x1E, CHR 0x1F])"

definition lstrip :: "(char \<Rightarrow> bool) \<Rightarrow> bytes \<Rightarrow> bytes" where
  "lstrip ws bs = dropWhile ws bs"

definition rstrip :: "(char \<Rightarrow> bool) \<Rightarrow> bytes \<Rightarrow> bytes" where
  "rstrip ws bs = rev (dropWhile ws (rev bs))"

definition strip :: "(char \<Rightarrow> bool) \<Rightarrow> bytes \<Rightarrow> bytes" where
  "strip ws bs = rstrip ws (lstrip ws bs)"

text \<open>\<open>lower()\<close> on ASCII text.\<close>

definition lower_char :: "char \<Rightarrow> char" where
  "lower_char c =
     (case map_of (zip ''ABCDEFGHIJKLMNOPQRSTUVWXYZ'' ''abcdefghijklmnopqrstuvwxyz'') c of
        Some l \<Rightarrow> l
      | None \<Rightarrow> c)"

definition lower :: "bytes \<Rightarrow> bytes" where
  "lower bs = map lower_char bs"

text \<open>\<open>x.split(b":", 1)\<close> when \<open>x\<close> contains a colon: the parts before and after the first one.\<close>

definition split_colon :: "bytes \<Rightarrow> bytes \<times> bytes" where
  "split_colon bs =
     (takeWhile (\<lambda>c. c \<noteq> CHR '':'') bs, drop 1 (dropWhile (\<lambda>c. c \<noteq> CHR '':'') bs))"

text \<open>\<open>x.split(b"\r\n")\<close>: the pieces between successive CR LF pairs, scanning left to right.\<close>

fun split_crlf :: "bytes \<Rightarrow> bytes list" where
  "split_crlf [] = [[]]"
| "split_crlf [c] = [[c]]"
| "split_crlf (c # d # cs) =
     (if c = CR \<and> d = LF then [] # split_crlf cs
      else (case split_crlf (d # cs) of
              p # ps \<Rightarrow> (c # p) # ps
            | [] \<Rightarrow> [[c]]))"

subsection \<open>Decimal integers: \<open>str(n)\<close> and \<open>int(text)\<close>\<close>

definition is_digit :: "char \<Rightarrow> bool" where
  "is_digit c = (48 \<le> (of_char c :: nat) \<and> (of_char c :: nat) \<le> 57)"

definition digit_val :: "char \<Rightarrow> nat" where
  "digit_val c = (of_char c :: nat) - 48"

definition digit_char :: "nat \<Rightarrow> char" where
  "digit_char d = ''0123456789'' ! d"

fun show_nat :: "nat \<Rightarrow> string" where
  "show_nat n = (if n < 10 then [digit_char n] else show_nat (n div 10) @ [digit_char (n mod 10)])"

declare show_nat.simps [simp del]

definition show_int :: "int \<Rightarrow> string" where
  "show_int i = (if i < 0 then CHR ''-'' # show_nat (nat (- i)) else show_nat (nat i))"

text \<open>
  The digits of \<open>int(text)\<close>: at least one digit, single underscores allowed between
  digits. The flag says whether the previous character was a digit.
\<close>

fun py_digits :: "nat \<Rightarrow> bool \<Rightarrow> string \<Rightarrow> nat option" where
  "py_digits acc prev [] = (if prev then Some acc else None)"
| "py_digits acc prev (c # cs) =
     (if is_digit c then py_digits (10 * acc + digit_val c) True cs
      else if c = CHR ''_'' \<and> prev \<and> cs \<noteq> [] then py_digits acc False cs
      else None)"

text \<open>
  \<open>int(text)\<close> in base 10, \<open>None\<close> for \<open>ValueError\<close>: surrounding whitespace is skipped, then
  an optional sign, then the digits. (The interpreter's limit on the number of digits is
  not modelled.)
\<close>

definition py_int :: "(char \<Rightarrow> bool) \<Rightarrow> string \<Rightarrow> int option" where
  "py_int ws text =
     (case strip ws text of
        [] \<Rightarrow> None
      | c # cs \<Rightarrow>
          if c = CHR ''-'' then map_option (\<lambda>n. - int n) (py_digits 0 False cs)
          else if c = CHR ''+'' then map_option int (py_digits 0 False cs)
          else map_option int (py_digits 0 False (c # cs)))"

section \<open>JSON values and \<open>json.dumps\<close> with compact separators\<close>

text \<open>
  The values \<open>json.loads\<close> returns, without floating-point numbers. A string is held as
  its UTF-8 bytes; an object keeps its members in order.
\<close>

datatype json =
    JNull
  | JBool bool
  | JInt int
  | JStr string
  | JArr "json list"
  | JObj "(string \<times> json) list"

text \<open>\<open>d.get(k)\<close> on a decoded object; \<open>None\<close> when the key is absent.\<close>

definition dict_get :: "(string \<times> json) list \<Rightarrow> string \<Rightarrow> json option" where
  "dict_get kvs k = map_of kvs k"

definition hex_digit :: "nat \<Rightarrow> char" where
  "hex_digit d = ''0123456789abcdef'' ! d"

text \<open>
  The escapes of \<open>json.dumps(..., ensure_ascii=False)\<close>: the quote, the backslash and the
  control characters below \<open>0x20\<close>; every other byte is copied.
\<close>

definition escape_char :: "char \<Rightarrow> string" where
  "escape_char c =
     (if c = DQ then [BSL, DQ]
      else if c = BSL then [BSL, BSL]
      else if c = LF then [BSL, CHR ''n'']
      else if c = CR then [BSL, CHR ''r'']
      else if c = CHR 0x09 then [BSL, CHR ''t'']
      else if c = CHR 0x08 then [BSL, CHR ''b'']
      else if c = CHR 0x0C then [BSL, CHR ''f'']
      else if (of_char c :: nat) < 32
        then [BSL, CHR ''u'', CHR ''0'', CHR ''0'',
              hex_digit ((of_char c :: nat) div 16), hex_digit ((of_char c :: nat) mod 16)]
      else [c])"

definition quote :: "string \<Rightarrow> string" where
  "quote s = DQ # concat (map escape_char s) @ [DQ]"

fun join_with :: "string \<Rightarrow> string list \<Rightarrow> string" where
  "join_with sep [] = []"
| "join_with sep [x] = x"
| "join_with sep (x # y # ys) = x @ sep @ join_with sep (y # ys)"

text \<open>\<open>json.dumps\<close> with the item separator and the key separator given.\<close>

fun dumps_with :: "string \<Rightarrow> string \<Rightarrow> json \<Rightarrow> bytes" where
  "dumps_with isep ksep JNull = ''null''"
| "dumps_with isep ksep (JBool b) = (if b then ''true'' else ''false'')"
| "dumps_with isep ksep (JInt i) = show_int i"
| "dumps_with isep ksep (JStr s) = quote s"
| "dumps_with isep ksep (JArr xs) = ''['' @ join_with isep (map (dumps_with isep ksep) xs) @ '']''"
| "dumps_with isep ksep (JObj kvs) =
     ''{'' @ join_with isep
               (map (\<lambda>kv. quote (fst kv) @ ksep @ dumps_with isep ksep (snd kv)) kvs) @ ''}''"

text \<open>\<open>json.dumps(payload, ensure_ascii=False, separators=(",", ":"))\<close>.\<close>

definition json_dumps :: "json \<Rightarrow> bytes" where
  "json_dumps v = dumps_with '','' '':'' v"

section \<open>The environment: library functions and the external collaborator\<close>

text \<open>
  \<open>json.loads\<close>, the default \<open>json.dumps\<close>, \<open>str()\<close> of a decoded value and the note-taking
  client are not code of the transport layer; they are parameters of the model.
  \<^item> \<open>json_loads b\<close> stands for \<open>json.loads(b.decode("utf-8"))\<close>, \<open>None\<close> when either step raises;
  \<^item> \<open>dumps_text v\<close> stands for \<open>json.dumps(v)\<close> with the default settings;
  \<^item> \<open>py_format v\<close> is the text an f-string gives for a value that is not a string;
  \<^item> \<open>upnote_ok\<close> says whether the client class could be imported;
  \<^item> \<open>client_init\<close> is \<open>None\<close> when \<open>UpNoteClient()\<close> succeeds and the text of the exception otherwise;
  \<^item> \<open>run_tool name args\<close> is the outcome of \<open>client.name(**args)\<close>: the text of the
    exception raised (also when \<open>args\<close> cannot be unpacked), or the value returned.
\<close>

record env =
  json_loads :: "bytes \<Rightarrow> json option"
  dumps_text :: "json \<Rightarrow> string"
  py_format :: "json \<Rightarrow> string"
  upnote_ok :: bool
  client_init :: "string option"
  run_tool :: "string \<Rightarrow> json \<Rightarrow> string + json"

section \<open>The debug wrapper: framing detection and summaries\<close>

text \<open>One line of the wrapper's log: the category and what was reported.\<close>

datatype report =
    LspDetected nat
  | NdjsonDetected nat
  | JsonSummary "json option" "json option"
  | JsonNonDict nat
  | JsonParseFailed
  | PumpError

type_synonym log = "(string \<times> report) list"

definition summarize_json_bytes :: "env \<Rightarrow> string \<Rightarrow> bytes \<Rightarrow> log" where
  "summarize_json_bytes e pre data =
     (case json_loads e data of
        None \<Rightarrow> [(pre, JsonParseFailed)]
      | Some (JObj kvs) \<Rightarrow> [(pre, JsonSummary (dict_get kvs ''method'') (dict_get kvs ''id''))]
      | Some _ \<Rightarrow> [(pre, JsonNonDict (length data))])"

definition is_crlf :: "char \<Rightarrow> bool" where
  "is_crlf c = (c = CR \<or> c = LF)"

definition try_parse_ndjson :: "bytes \<Rightarrow> (bytes \<times> nat) option" where
  "try_parse_ndjson buffer =
     (case find_sub [LF] buffer of
        None \<Rightarrow> None
      | Some nl \<Rightarrow> Some (rstrip is_crlf (take (nl + 1) buffer), nl + 1))"

text \<open>The header dictionary of \<open>try_parse_lsp\<close>: a later line with the same key replaces an earlier one.\<close>

definition add_header_bytes :: "bytes \<Rightarrow> (bytes \<rightharpoonup> bytes) \<Rightarrow> (bytes \<rightharpoonup> bytes)" where
  "add_header_bytes raw_line headers =
     (if raw_line = [] then headers
      else if CHR '':'' \<in> set raw_line
        then (case split_colon raw_line of
                (k, v) \<Rightarrow> headers(lower (strip bytes_space k) \<mapsto> strip bytes_space v))
      else headers)"

definition content_length_bytes :: "(bytes \<rightharpoonup> bytes) \<Rightarrow> int" where
  "content_length_bytes headers =
     (case py_int bytes_space (case headers ''content-length'' of None \<Rightarrow> ''0'' | Some v \<Rightarrow> v) of
        None \<Rightarrow> 0
      | Some n \<Rightarrow> n)"

definition try_parse_lsp :: "bytes \<Rightarrow> (bytes \<times> nat) option" where
  "try_parse_lsp buffer =
     (case find_sub [CR, LF, CR, LF] buffer of
        None \<Rightarrow> None
      | Some sep \<Rightarrow>
          (let headers_blob = take (sep + 4) buffer;
               headers = fold add_header_bytes (split_crlf headers_blob) Map.empty;
               n = content_length_bytes headers
           in if n \<le> 0 then None
              else let start = sep + 4
                   in if int (length buffer) < int start + n then None
                      else Some (take (nat n) (drop start buffer), start + nat n)))"

definition lsp_hint :: "bytes \<Rightarrow> bool" where
  "lsp_hint buffer =
     (prefix ''Content-Length:'' buffer \<or> find_sub [CR, LF, CR, LF] (take 128 buffer) \<noteq> None)"

definition ndjson_hint :: "bytes \<Rightarrow> bool" where
  "ndjson_hint buffer = (take 1 buffer = ''{'' \<or> take 1 buffer = ''['')"

definition sniff_ndjson :: "env \<Rightarrow> string \<Rightarrow> bytes \<Rightarrow> log \<times> nat option" where
  "sniff_ndjson e pre buffer =
     (if ndjson_hint buffer then
        (case try_parse_ndjson buffer of
           Some (line, consumed) \<Rightarrow>
             ((pre, NdjsonDetected (length line)) # summarize_json_bytes e pre line, Some consumed)
         | None \<Rightarrow> ([], None))
      else ([], None))"

text \<open>
  \<open>sniff_and_summarize\<close>: the lines it logs and the number of bytes consumed. The LSP
  attempt comes first; when it finds no complete message the NDJSON test still runs.
\<close>

definition sniff_and_summarize :: "env \<Rightarrow> string \<Rightarrow> bytes \<Rightarrow> log \<times> nat option" where
  "sniff_and_summarize e pre buffer =
     (if lsp_hint buffer then
        (case try_parse_lsp buffer of
           Some (body, consumed) \<Rightarrow>
             ((pre, LspDetected (length body)) # summarize_json_bytes e pre body, Some consumed)
         | None \<Rightarrow> sniff_ndjson e pre buffer)
      else sniff_ndjson e pre buffer)"

text \<open>
  The pump. The source delivers one byte per \<open>read(1)\<close>; the empty read at the end of the
  list leaves the loop. \<open>consumed\<close> is tested for truth, so a count of zero drops nothing.
\<close>

record pump_state =
  dst :: bytes
  tap :: bytes
  buf :: bytes
  plog :: log

definition pump_summarize :: "env \<Rightarrow> string \<Rightarrow> pump_state \<Rightarrow> pump_state" where
  "pump_summarize e pre s =
     (case sniff_and_summarize e pre (buf s) of
        (l1, consumed) \<Rightarrow>
          (if consumed \<noteq> None \<and> consumed \<noteq> Some 0 then
             (let s1 = s\<lparr>buf := drop (the consumed) (buf s), plog := plog s @ l1\<rparr>
              in case sniff_and_summarize e pre (buf s1) of
                   (l2, consumed2) \<Rightarrow>
                     (if consumed2 \<noteq> None \<and> consumed2 \<noteq> Some 0
                      then s1\<lparr>buf := drop (the consumed2) (buf s1), plog := plog s1 @ l2\<rparr>
                      else s1\<lparr>plog := plog s1 @ l2\<rparr>))
           else s\<lparr>plog := plog s @ l1\<rparr>))"

fun pump :: "env \<Rightarrow> string \<Rightarrow> bytes \<Rightarrow> pump_state \<Rightarrow> pump_state" where
  "pump e pre [] s = s"
| "pump e pre (x # src) s =
     pump e pre src
       (pump_summarize e pre (s\<lparr>dst := dst s @ [x], tap := tap s @ [x], buf := buf s @ [x]\<rparr>))"

definition pump_start :: pump_state where
  "pump_start = \<lparr>dst = [], tap = [], buf = [], plog = []\<rparr>"

section \<open>The server: transport with two framings\<close>

datatype framing = Ndjson | Lsp

text \<open>
  The process state the server reads and writes: what is left on standard input, what has
  been written to standard output, and the global \<open>TRANSPORT_MODE\<close>. Text written
  through \<open>sys.stdout\<close> is taken to be encoded as UTF-8 without newline translation.
\<close>

record server_state =
  stdin :: bytes
  stdout :: bytes
  transport_mode :: "framing option"

definition write_lsp :: "json \<Rightarrow> server_state \<Rightarrow> server_state" where
  "write_lsp payload s =
     (let body = json_dumps payload;
          header = ''Content-Length: '' @ show_nat (length body) @ [CR, LF, CR, LF]
      in s\<lparr>stdout := stdout s @ header @ body\<rparr>)"

definition write_ndjson :: "json \<Rightarrow> server_state \<Rightarrow> server_state" where
  "write_ndjson payload s = s\<lparr>stdout := stdout s @ json_dumps payload @ [LF]\<rparr>"

definition write_message :: "json \<Rightarrow> server_state \<Rightarrow> server_state" where
  "write_message payload s =
     (if transport_mode s = Some Lsp then write_lsp payload s else write_ndjson payload s)"

definition write_result :: "json \<Rightarrow> json \<Rightarrow> server_state \<Rightarrow> server_state" where
  "write_result id_value result s =
     write_message (JObj [(''jsonrpc'', JStr ''2.0''), (''id'', id_value), (''result'', result)]) s"

definition write_error :: "json \<Rightarrow> int \<Rightarrow> string \<Rightarrow> server_state \<Rightarrow> server_state" where
  "write_error id_value code message s =
     write_message
       (JObj [(''jsonrpc'', JStr ''2.0''), (''id'', id_value),
              (''error'', JObj [(''code'', JInt code), (''message'', JStr message)])]) s"

text \<open>
  \<open>readline()\<close> on a binary stream: the bytes up to and including the first LF, or all
  that is left when there is none; the second component is what stays unread.
\<close>

definition readline :: "bytes \<Rightarrow> bytes \<times> bytes" where
  "readline inp =
     (case dropWhile (\<lambda>c. c \<noteq> LF) inp of
        [] \<Rightarrow> (inp, [])
      | c # rest \<Rightarrow> (takeWhile (\<lambda>c. c \<noteq> LF) inp @ [c], rest))"

definition is_ascii :: "bytes \<Rightarrow> bool" where
  "is_ascii bs = list_all (\<lambda>c. (of_char c :: nat) < 128) bs"

text \<open>
  \<open>add_header\<close> of \<open>_read_lsp_from\<close>: a line that is not ASCII or has no colon raises
  inside the \<open>try\<close> and leaves the headers as they are.
\<close>

definition add_header :: "bytes \<Rightarrow> (string \<rightharpoonup> string) \<Rightarrow> (string \<rightharpoonup> string)" where
  "add_header line headers =
     (if is_ascii line \<and> CHR '':'' \<in> set line
      then (case split_colon line of
              (k, v) \<Rightarrow> headers(lower (strip str_space k) \<mapsto> strip str_space v))
      else headers)"

definition is_blank_line :: "bytes \<Rightarrow> bool" where
  "is_blank_line line = (line = [CR, LF] \<or> line = [LF])"

text \<open>
  The header loop of \<open>_read_lsp_from\<close>: \<open>None\<close> when the input ends before a blank line,
  otherwise the headers and the input left after the blank line.
\<close>

function read_headers :: "(string \<rightharpoonup> string) \<Rightarrow> bytes \<Rightarrow> ((string \<rightharpoonup> string) \<times> bytes) option" where
  "read_headers headers inp =
     (if inp = [] then None
      else if is_blank_line (fst (readline inp)) then Some (headers, snd (readline inp))
      else read_headers (add_header (fst (readline inp)) headers) (snd (readline inp)))"
  by pat_completeness auto

termination read_headers
proof (relation "measure (\<lambda>(headers, inp). length inp)")
  show "wf (measure (\<lambda>(headers, inp). length inp))" by simp
next
  fix headers :: "string \<rightharpoonup> string" and inp :: bytes
  assume ne: "inp \<noteq> []"
  have "length (snd (readline inp)) < length inp"
  proof (cases "dropWhile (\<lambda>c. c \<noteq> LF) inp")
    case Nil
    show ?thesis using ne by (simp add: readline_def Nil)
  next
    case (Cons c rest)
    have "length (dropWhile (\<lambda>c. c \<noteq> LF) inp) \<le> length inp" by (rule length_dropWhile_le)
    then show ?thesis by (simp add: readline_def Cons)
  qed
  then show "((add_header (fst (readline inp)) headers, snd (readline inp)), (headers, inp))
      \<in> measure (\<lambda>(headers, inp). length inp)" by simp
qed

declare read_headers.simps [simp del]

definition content_length :: "(string \<rightharpoonup> string) \<Rightarrow> int" where
  "content_length headers =
     (case py_int str_space (case headers ''content-length'' of None \<Rightarrow> ''0'' | Some v \<Rightarrow> v) of
        None \<Rightarrow> 0
      | Some n \<Rightarrow> n)"

text \<open>
  \<open>_read_lsp_from\<close>, called with the first line already taken from the input. \<open>read(n)\<close>
  takes the next \<open>n\<close> bytes, fewer at the end of the input.
\<close>

definition read_lsp_from :: "env \<Rightarrow> bytes \<Rightarrow> server_state \<Rightarrow> json option \<times> server_state" where
  "read_lsp_from e first_line s =
     (case read_headers (if is_blank_line first_line then Map.empty
                         else add_header first_line Map.empty) (stdin s) of
        None \<Rightarrow> (None, s\<lparr>stdin := []\<rparr>)
      | Some (headers, rest) \<Rightarrow>
          (let n = content_length headers
           in if n \<le> 0 then (None, s\<lparr>stdin := rest\<rparr>)
              else let body = take (nat n) rest; s1 = s\<lparr>stdin := drop (nat n) rest\<rparr>
                   in if body = [] \<or> int (length body) \<noteq> n then (None, s1)
                      else (json_loads e body, s1)))"

text \<open>
  \<open>str.strip()\<close> on text held as UTF-8: besides the ASCII whitespace it removes the
  encodings of the other white-space code points (U+0085, U+00A0, U+1680, U+2000 to
  U+200A, U+2028, U+2029, U+202F, U+205F, U+3000).
\<close>

definition wide_spaces :: "bytes list" where
  "wide_spaces =
     [[CHR 0xC2, CHR 0x85], [CHR 0xC2, CHR 0xA0], [CHR 0xE1, CHR 0x9A, CHR 0x80],
      [CHR 0xE2, CHR 0x80, CHR 0x80], [CHR 0xE2, CHR 0x80, CHR 0x81],
      [CHR 0xE2, CHR 0x80, CHR 0x82], [CHR 0xE2, CHR 0x80, CHR 0x83],
      [CHR 0xE2, CHR 0x80, CHR 0x84], [CHR 0xE2, CHR 0x80, CHR 0x85],
      [CHR 0xE2, CHR 0x80, CHR 0x86], [CHR 0xE2, CHR 0x80, CHR 0x87],
      [CHR 0xE2, CHR 0x80, CHR 0x88], [CHR 0xE2, CHR 0x80, CHR 0x89],
      [CHR 0xE2, CHR 0x80, CHR 0x8A], [CHR 0xE2, CHR 0x80, CHR 0xA8],
      [CHR 0xE2, CHR 0x80, CHR 0xA9], [CHR 0xE2, CHR 0x80, CHR 0xAF],
      [CHR 0xE2, CHR 0x81, CHR 0x9F], [CHR 0xE3, CHR 0x80, CHR 0x80]]"

fun drop_spaces :: "bytes list \<Rightarrow> bytes \<Rightarrow> bytes" where
  "drop_spaces seqs [] = []"
| "drop_spaces seqs (c # cs) =
     (if str_space c then drop_spaces seqs cs
      else (case find (\<lambda>q. prefix q (c # cs)) seqs of
              None \<Rightarrow> c # cs
            | Some q \<Rightarrow> drop_spaces seqs (drop (length q - 1) cs)))"

definition text_strip :: "bytes \<Rightarrow> bytes" where
  "text_strip bs = rev (drop_spaces (map rev wide_spaces) (rev (drop_spaces wide_spaces bs)))"

text \<open>
  \<open>_read_ndjson_from\<close>: decoding comes before stripping in the source; stripping removes
  whole code points only, so the stripped bytes decode exactly when the line does.
\<close>

definition read_ndjson_from :: "env \<Rightarrow> bytes \<Rightarrow> json option" where
  "read_ndjson_from e first_line = json_loads e (text_strip first_line)"

definition looks_like_json :: "bytes \<Rightarrow> bool" where
  "looks_like_json first_line =
     (prefix ''{'' (lstrip bytes_space first_line) \<or> prefix ''['' (lstrip bytes_space first_line))"

definition read_message :: "env \<Rightarrow> server_state \<Rightarrow> json option \<times> server_state" where
  "read_message e s =
     (case readline (stdin s) of
        (first_line, rest) \<Rightarrow>
          if first_line = [] then (None, s\<lparr>stdin := rest\<rparr>)
          else if looks_like_json first_line
            then (read_ndjson_from e first_line,
                  s\<lparr>stdin := rest,
                    transport_mode := (case transport_mode s of None \<Rightarrow> Some Ndjson | Some m \<Rightarrow> Some m)\<rparr>)
          else read_lsp_from e first_line
                 (s\<lparr>stdin := rest,
                   transport_mode := (case transport_mode s of None \<Rightarrow> Some Lsp | Some m \<Rightarrow> Some m)\<rparr>))"

section \<open>The server: handlers\<close>

definition SERVER_INFO :: "(string \<times> json) list" where
  "SERVER_INFO =
     [(''name'', JStr ''upnote-mcp''),
      (''version'', JStr ''1.0.0''),
      (''description'', JStr ''MCP server for UpNote integration (stdio)'')]"

text \<open>The truth value Python gives a decoded value, as \<open>x or {}\<close> tests it.\<close>

fun py_truthy :: "json \<Rightarrow> bool" where
  "py_truthy JNull = False"
| "py_truthy (JBool b) = b"
| "py_truthy (JInt i) = (i \<noteq> 0)"
| "py_truthy (JStr s) = (s \<noteq> [])"
| "py_truthy (JArr xs) = (xs \<noteq> [])"
| "py_truthy (JObj kvs) = (kvs \<noteq> [])"

text \<open>\<open>d.get(k, {}) or {}\<close>.\<close>

definition get_or_empty :: "(string \<times> json) list \<Rightarrow> string \<Rightarrow> json" where
  "get_or_empty d k =
     (case dict_get d k of
        None \<Rightarrow> JObj []
      | Some v \<Rightarrow> if py_truthy v then v else JObj [])"

fun py_type_name :: "json \<Rightarrow> string" where
  "py_type_name JNull = ''NoneType''"
| "py_type_name (JBool b) = ''bool''"
| "py_type_name (JInt i) = ''int''"
| "py_type_name (JStr s) = ''str''"
| "py_type_name (JArr xs) = ''list''"
| "py_type_name (JObj kvs) = ''dict''"

text \<open>The text of the \<open>AttributeError\<close> that \<open>v.get\<close> raises when \<open>v\<close> is not a dictionary.\<close>

definition no_get :: "json \<Rightarrow> string" where
  "no_get v = [CHR 0x27] @ py_type_name v @ [CHR 0x27] @ '' object has no attribute ''
                @ [CHR 0x27] @ ''get'' @ [CHR 0x27]"

text \<open>
  \<open>resp_initialize\<close>. The parameter is declared a dictionary; on any other value the
  first line raises, which is the \<open>Inl\<close> result.
\<close>

definition resp_initialize :: "json \<Rightarrow> string + (string \<times> json) list" where
  "resp_initialize params =
     (case params of
        JObj d \<Rightarrow>
          (let client_protocol =
                 (case dict_get d ''protocolVersion'' of None \<Rightarrow> JStr ''1.0.0'' | Some v \<Rightarrow> v);
               protocol_version =
                 (case client_protocol of
                    JStr p \<Rightarrow> if prefix ''202'' p then p else ''1.0.0''
                  | _ \<Rightarrow> ''1.0.0'')
           in Inr [(''protocolVersion'', JStr protocol_version),
                   (''capabilities'',
                      JObj [(''experimental'', JObj []),
                            (''prompts'', JObj [(''listChanged'', JBool False)]),
                            (''resources'', JObj [(''subscribe'', JBool False),
                                                  (''listChanged'', JBool False)]),
                            (''tools'', JObj [(''listChanged'', JBool False)])]),
                   (''serverInfo'',
                      JObj [(''name'', the (dict_get SERVER_INFO ''name'')),
                            (''version'', the (dict_get SERVER_INFO ''version''))])])
      | _ \<Rightarrow> Inl (no_get params))"

subsection \<open>The tool catalogue\<close>

definition ty :: "string \<Rightarrow> json" where
  "ty t = JObj [(''type'', JStr t)]"

definition ty_array :: json where
  "ty_array = JObj [(''type'', JStr ''array''), (''items'', ty ''string'')]"

definition ty_enum :: "string list \<Rightarrow> json" where
  "ty_enum vs = JObj [(''type'', JStr ''string''), (''enum'', JArr (map JStr vs))]"

definition tool :: "string \<Rightarrow> string \<Rightarrow> (string \<times> json) list \<Rightarrow> string list option \<Rightarrow> json" where
  "tool name description properties required =
     JObj [(''name'', JStr name),
           (''description'', JStr description),
           (''inputSchema'',
              JObj ([(''type'', JStr ''object''), (''properties'', JObj properties)]
                    @ (case required of
                         None \<Rightarrow> []
                       | Some r \<Rightarrow> [(''required'', JArr (map JStr r))])))]"

definition list_tools :: "(string \<times> json) list" where
  "list_tools =
     [(''tools'', JArr
        [tool ''create_note'' ''Create a new note in UpNote''
           [(''title'', ty ''string''), (''text'', ty ''string''), (''notebook'', ty ''string''),
            (''tags'', ty_array), (''pinned'', ty ''boolean''), (''favorite'', ty ''boolean'')]
           (Some [''title'', ''text'']),
         tool ''create_markdown_note'' ''Create a markdown formatted note in UpNote''
           [(''title'', ty ''string''), (''content'', ty ''string''), (''notebook'', ty ''string''),
            (''tags'', ty_array), (''add_timestamp'', ty ''boolean'')]
           (Some [''title'', ''content'']),
         tool ''create_task_note'' ''Create a task list note in UpNote''
           [(''title'', ty ''string''), (''tasks'', ty_array), (''notebook'', ty ''string''),
            (''due_date'', ty ''string''), (''priority'', ty_enum [''low'', ''medium'', ''high''])]
           (Some [''title'', ''tasks'']),
         tool ''create_meeting_note'' ''Create a meeting note in UpNote''
           [(''title'', ty ''string''), (''date'', ty ''string''), (''attendees'', ty_array),
            (''agenda'', ty ''string''), (''notebook'', ty ''string''), (''location'', ty ''string'')]
           (Some [''title'', ''date'']),
         tool ''create_project_note'' ''Create a project note in UpNote''
           [(''project_name'', ty ''string''), (''description'', ty ''string''),
            (''milestones'', ty_array), (''team_members'', ty_array),
            (''due_date'', ty ''string''), (''priority'', ty_enum [''low'', ''medium'', ''high''])]
           (Some [''project_name'', ''description'']),
         tool ''search_notes'' ''Search for notes in UpNote''
           [(''query'', ty ''string''), (''notebook'', ty ''string''), (''tags'', ty_array),
            (''limit'', ty ''integer'')]
           (Some [''query'']),
         tool ''open_note'' ''Open a specific note in UpNote''
           [(''note_id'', ty ''string''), (''title'', ty ''string''), (''edit'', ty ''boolean'')]
           None,
         tool ''create_notebook'' ''Create a new notebook in UpNote''
           [(''title'', ty ''string''), (''color'', ty ''string''), (''parent'', ty ''string'')]
           (Some [''title'']),
         tool ''open_notebook'' ''Open a notebook in UpNote''
           [(''name'', ty ''string''), (''notebook_id'', ty ''string'')]
           None,
         tool ''open_upnote'' ''Open the UpNote application'' [] None,
         tool ''import_note'' ''Import a note into UpNote''
           [(''path'', ty ''string''), (''notebook'', ty ''string''), (''tags'', ty_array)]
           (Some [''path'']),
         tool ''export_note'' ''Export a note from UpNote''
           [(''note_id'', ty ''string''), (''format'', ty_enum [''md'', ''html'', ''pdf'']),
            (''dest_path'', ty ''string'')]
           (Some [''note_id'', ''format'', ''dest_path''])])]"

subsection \<open>Calling a tool\<close>

text \<open>The names \<open>call_tool\<close> passes on to the client, in the order of its \<open>elif\<close> chain.\<close>

definition tool_names :: "string list" where
  "tool_names =
     [''create_note'', ''create_markdown_note'', ''create_task_note'', ''create_meeting_note'',
      ''create_project_note'', ''create_daily_note'', ''search_notes'', ''open_note'',
      ''create_notebook'', ''open_notebook'', ''open_upnote'', ''import_note'', ''export_note'']"

text \<open>A value inside an f-string: a string is itself, an absent value is \<open>None\<close>.\<close>

definition fmt :: "env \<Rightarrow> json option \<Rightarrow> string" where
  "fmt e v =
     (case v of
        None \<Rightarrow> ''None''
      | Some (JStr t) \<Rightarrow> t
      | Some w \<Rightarrow> py_format e w)"

definition tool_reply :: "env \<Rightarrow> (string \<times> json) list \<Rightarrow> bool \<Rightarrow> (string \<times> json) list" where
  "tool_reply e payload is_error =
     [(''content'', JArr [JObj [(''type'', JStr ''text''),
                                (''text'', JStr (dumps_text e (JObj payload)))]]),
      (''isError'', JBool is_error)]"

definition failure :: "env \<Rightarrow> string \<Rightarrow> (string \<times> json) list" where
  "failure e msg = tool_reply e [(''success'', JBool False), (''error'', JStr msg)] True"

text \<open>
  \<open>call_tool\<close>. As in \<open>resp_initialize\<close>, a parameter that is not a dictionary raises at the
  first line (\<open>Inl\<close>). An exception inside either \<open>try\<close> becomes a reply with \<open>isError\<close>.
\<close>

definition call_tool :: "env \<Rightarrow> json \<Rightarrow> string + (string \<times> json) list" where
  "call_tool e params =
     (case params of
        JObj d \<Rightarrow>
          (let name = dict_get d ''name''; args = get_or_empty d ''arguments''
           in if \<not> upnote_ok e then Inr (failure e ''UpNote client not available'')
              else (case client_init e of
                      Some msg \<Rightarrow> Inr (failure e (''Failed to init client: '' @ msg))
                    | None \<Rightarrow>
                        (case name of
                           Some (JStr t) \<Rightarrow>
                             if t \<in> set tool_names then
                               (case run_tool e t args of
                                  Inl msg \<Rightarrow> Inr (failure e msg)
                                | Inr res \<Rightarrow>
                                    Inr (tool_reply e [(''success'', JBool True), (''result'', res)] False))
                             else Inr (failure e (''Unknown tool: '' @ fmt e name))
                         | _ \<Rightarrow> Inr (failure e (''Unknown tool: '' @ fmt e name)))))
      | _ \<Rightarrow> Inl (no_get params))"

section \<open>The server: main loop\<close>

text \<open>
  The \<open>try\<close> block of the loop body for a request with identifier \<open>req_id\<close>. The Boolean
  says whether the loop is left (\<open>shutdown\<close>). An exception of a handler is answered by
  \<open>write_error\<close> with the code of an internal error.
\<close>

text \<open>The two error codes the loop uses.\<close>

definition method_not_found :: int where
  "method_not_found = - 32601"

definition internal_error :: int where
  "internal_error = - 32603"

definition is_method :: "json option \<Rightarrow> string \<Rightarrow> bool" where
  "is_method m name = (m = Some (JStr name))"

definition dispatch :: "env \<Rightarrow> (string \<times> json) list \<Rightarrow> json \<Rightarrow> server_state \<Rightarrow> bool \<times> server_state" where
  "dispatch e req req_id s =
     (let method = dict_get req ''method''
      in if is_method method ''initialize'' then
           (case resp_initialize (get_or_empty req ''params'') of
              Inr result \<Rightarrow> (False, write_result req_id (JObj result) s)
            | Inl ex \<Rightarrow> (False, write_error req_id internal_error (''Internal error: '' @ ex) s))
         else if is_method method ''tools/list'' then
           (False, write_result req_id (JObj list_tools) s)
         else if is_method method ''tools/call'' then
           (case call_tool e (get_or_empty req ''params'') of
              Inr result \<Rightarrow> (False, write_result req_id (JObj result) s)
            | Inl ex \<Rightarrow> (False, write_error req_id internal_error (''Internal error: '' @ ex) s))
         else if is_method method ''ping'' then (False, write_result req_id (JObj []) s)
         else if is_method method ''shutdown'' then (True, write_result req_id (JObj []) s)
         else (False, write_error req_id method_not_found (''Method not found: '' @ fmt e method) s))"

text \<open>
  One pass of the loop body after \<open>read_message\<close> returned \<open>req\<close>. A value without \<open>get\<close>
  raises outside the \<open>try\<close> and ends the process; an identifier that is absent or \<open>null\<close>
  is \<open>None\<close> in Python and the message is skipped.
\<close>

datatype outcome = Continue | Break | Crash

definition handle :: "env \<Rightarrow> json \<Rightarrow> server_state \<Rightarrow> outcome \<times> server_state" where
  "handle e req s =
     (case req of
        JObj d \<Rightarrow>
          (case dict_get d ''id'' of
             None \<Rightarrow> (Continue, s)
           | Some JNull \<Rightarrow> (Continue, s)
           | Some req_id \<Rightarrow>
               (case dispatch e d req_id s of
                  (stop, s') \<Rightarrow> (if stop then Break else Continue, s')))
      | _ \<Rightarrow> (Crash, s))"

text \<open>
  \<open>read_message\<close> returns Python's \<open>None\<close> at the end of the input, on a failed decode and
  when the decoded value is \<open>null\<close>.
\<close>

definition no_message :: "json option \<Rightarrow> bool" where
  "no_message r = (r = None \<or> r = Some JNull)"

text \<open>
  The loop. Besides the final state and the way the loop ended, the result lists every
  pass: the decoded message, the state when it was read and the state after handling it.
\<close>

datatype exit = EndOfInput | Shutdown | Uncaught

function main :: "env \<Rightarrow> server_state \<Rightarrow> (json \<times> server_state \<times> server_state) list \<times> exit \<times> server_state" where
  "main e s =
     (if no_message (fst (read_message e s)) then ([], EndOfInput, snd (read_message e s))
      else
        (let req = the (fst (read_message e s));
             s1 = snd (read_message e s);
             s2 = snd (handle e req s1)
         in if fst (handle e req s1) = Crash then ([(req, s1, s2)], Uncaught, s2)
            else if fst (handle e req s1) = Break then ([(req, s1, s2)], Shutdown, s2)
            else (case main e s2 of (passes, how, final) \<Rightarrow> ((req, s1, s2) # passes, how, final))))"
  by pat_completeness auto

section \<open>A reference decoder and a sample environment\<close>

text \<open>
  To run the model on concrete input the parameters need values. \<open>ref_loads\<close> decodes
  JSON text as \<open>json.loads(b.decode("utf-8"))\<close> does, for texts without floating-point
  numbers and without \<open>\u\<close> escapes; on a text with either it gives \<open>None\<close>.
\<close>

definition cont_byte :: "char \<Rightarrow> bool" where
  "cont_byte c = (128 \<le> (of_char c :: nat) \<and> (of_char c :: nat) \<le> 191)"

text \<open>Well-formed UTF-8, as the strict decoder accepts it.\<close>

fun utf8_ok :: "bytes \<Rightarrow> bool" where
  "utf8_ok [] = True"
| "utf8_ok (c # cs) =
     (let n = (of_char c :: nat)
      in if n < 128 then utf8_ok cs
         else if 194 \<le> n \<and> n \<le> 223 then
           (case cs of c1 # r \<Rightarrow> cont_byte c1 \<and> utf8_ok r | _ \<Rightarrow> False)
         else if 224 \<le> n \<and> n \<le> 239 then
           (case cs of
              c1 # c2 # r \<Rightarrow>
                cont_byte c1 \<and> cont_byte c2
                \<and> (if n = 224 then 160 \<le> (of_char c1 :: nat) else True)
                \<and> (if n = 237 then (of_char c1 :: nat) \<le> 159 else True)
                \<and> utf8_ok r
            | _ \<Rightarrow> False)
         else if 240 \<le> n \<and> n \<le> 244 then
           (case cs of
              c1 # c2 # c3 # r \<Rightarrow>
                cont_byte c1 \<and> cont_byte c2 \<and> cont_byte c3
                \<and> (if n = 240 then 144 \<le> (of_char c1 :: nat) else True)
                \<and> (if n = 244 then (of_char c1 :: nat) \<le> 143 else True)
                \<and> utf8_ok r
            | _ \<Rightarrow> False)
         else False)"

definition json_space :: "char \<Rightarrow> bool" where
  "json_space c = (c \<in> set [CHR 0x20, CHR 0x09, LF, CR])"

definition skip_ws :: "bytes \<Rightarrow> bytes" where
  "skip_ws bs = dropWhile json_space bs"

definition unescape :: "char \<Rightarrow> char option" where
  "unescape c =
     (if c = DQ then Some DQ
      else if c = BSL then Some BSL
      else if c = CHR ''/'' then Some (CHR ''/'')
      else if c = CHR ''b'' then Some (CHR 0x08)
      else if c = CHR ''f'' then Some (CHR 0x0C)
      else if c = CHR ''n'' then Some LF
      else if c = CHR ''r'' then Some CR
      else if c = CHR ''t'' then Some (CHR 0x09)
      else None)"

text \<open>The text of a string after its opening quote, and what follows the closing quote.\<close>

fun scan_string :: "string \<Rightarrow> bytes \<Rightarrow> (string \<times> bytes) option" where
  "scan_string acc [] = None"
| "scan_string acc [c] = (if c = DQ then Some (rev acc, []) else None)"
| "scan_string acc (c # d # cs) =
     (if c = DQ then Some (rev acc, d # cs)
      else if c = BSL then
        (case unescape d of
           Some x \<Rightarrow> scan_string (x # acc) cs
         | None \<Rightarrow> None)
      else if (of_char c :: nat) < 32 then None
      else scan_string (c # acc) (d # cs))"

definition scan_number :: "bytes \<Rightarrow> (json \<times> bytes) option" where
  "scan_number bs =
     (let neg = (take 1 bs = ''-'');
          ds = (if neg then drop 1 bs else bs);
          digits = (if take 1 ds = ''0'' then ''0'' else takeWhile is_digit ds);
          rest = drop (length digits) ds
      in if digits = [] then None
         else if take 1 rest = ''.'' \<or> take 1 rest = ''e'' \<or> take 1 rest = ''E'' then None
         else (case py_digits 0 False digits of
                 None \<Rightarrow> None
               | Some n \<Rightarrow> Some (JInt (if neg then - int n else int n), rest)))"

text \<open>\<open>d[k] = v\<close>: a key already present keeps its place and takes the new value.\<close>

fun dict_set :: "string \<Rightarrow> json \<Rightarrow> (string \<times> json) list \<Rightarrow> (string \<times> json) list" where
  "dict_set k v [] = [(k, v)]"
| "dict_set k v ((k', v') # kvs) = (if k = k' then (k, v) # kvs else (k', v') # dict_set k v kvs)"

text \<open>The scanner, with a bound on the number of nested calls.\<close>

fun scan_value :: "nat \<Rightarrow> bytes \<Rightarrow> (json \<times> bytes) option"
  and scan_items :: "nat \<Rightarrow> json list \<Rightarrow> bytes \<Rightarrow> (json \<times> bytes) option"
  and scan_members :: "nat \<Rightarrow> (string \<times> json) list \<Rightarrow> bytes \<Rightarrow> (json \<times> bytes) option" where
  "scan_value 0 bs = None"
| "scan_value (Suc n) bs =
     (if prefix [DQ] bs then
        (case scan_string [] (drop 1 bs) of
           None \<Rightarrow> None
         | Some (s, rest) \<Rightarrow> Some (JStr s, rest))
      else if prefix ''{'' bs then
        (if prefix ''}'' (skip_ws (drop 1 bs)) then Some (JObj [], drop 1 (skip_ws (drop 1 bs)))
         else scan_members n [] (skip_ws (drop 1 bs)))
      else if prefix ''['' bs then
        (if prefix '']'' (skip_ws (drop 1 bs)) then Some (JArr [], drop 1 (skip_ws (drop 1 bs)))
         else scan_items n [] (skip_ws (drop 1 bs)))
      else if prefix ''null'' bs then Some (JNull, drop 4 bs)
      else if prefix ''true'' bs then Some (JBool True, drop 4 bs)
      else if prefix ''false'' bs then Some (JBool False, drop 5 bs)
      else scan_number bs)"
| "scan_items 0 acc bs = None"
| "scan_items (Suc n) acc bs =
     (case scan_value n bs of
        None \<Rightarrow> None
      | Some (v, rest) \<Rightarrow>
          if prefix '','' (skip_ws rest) then scan_items n (acc @ [v]) (skip_ws (drop 1 (skip_ws rest)))
          else if prefix '']'' (skip_ws rest) then Some (JArr (acc @ [v]), drop 1 (skip_ws rest))
          else None)"
| "scan_members 0 acc bs = None"
| "scan_members (Suc n) acc bs =
     (if prefix [DQ] bs then
        (case scan_string [] (drop 1 bs) of
           None \<Rightarrow> None
         | Some (k, rest) \<Rightarrow>
             if prefix '':'' (skip_ws rest) then
               (case scan_value n (skip_ws (drop 1 (skip_ws rest))) of
                  None \<Rightarrow> None
                | Some (v, rest2) \<Rightarrow>
                    if prefix '','' (skip_ws rest2)
                      then scan_members n (dict_set k v acc) (skip_ws (drop 1 (skip_ws rest2)))
                    else if prefix ''}'' (skip_ws rest2)
                      then Some (JObj (dict_set k v acc), drop 1 (skip_ws rest2))
                    else None)
             else None)
      else None)"

definition ref_loads :: "bytes \<Rightarrow> json option" where
  "ref_loads bs =
     (if utf8_ok bs then
        (case scan_value (Suc (2 * length bs)) (skip_ws bs) of
           None \<Rightarrow> None
         | Some (v, rest) \<Rightarrow> if skip_ws rest = [] then Some v else None)
      else None)"

text \<open>
  \<open>str(v)\<close> for \<open>None\<close>, a Boolean or an integer, and for lists of these; this is all the
  examples format.
\<close>

fun sample_format :: "json \<Rightarrow> string" where
  "sample_format JNull = ''None''"
| "sample_format (JBool b) = (if b then ''True'' else ''False'')"
| "sample_format (JInt i) = show_int i"
| "sample_format (JStr s) = s"
| "sample_format (JArr xs) = ''['' @ join_with '', '' (map sample_format xs) @ '']''"
| "sample_format (JObj kvs) = dumps_with '', '' '': '' (JObj kvs)"

text \<open>
  The sample environment: the reference decoder, the default separators of \<open>json.dumps\<close>
  (which gives its output on ASCII text), a client that can be constructed and whose
  methods all return \<open>True\<close>.
\<close>

definition sample_env :: env where
  "sample_env =
     \<lparr>json_loads = ref_loads,
      dumps_text = dumps_with '', '' '': '',
      py_format = sample_format,
      upnote_ok = True,
      client_init = None,
      run_tool = (\<lambda>name args. Inr (JBool True))\<rparr>"

definition fresh :: "bytes \<Rightarrow> server_state" where
  "fresh inp = \<lparr>stdin = inp, stdout = [], transport_mode = None\<rparr>"

text \<open>Two lines of input: a request and a notification.\<close>

definition sample_ping :: bytes where
  \<open>sample_ping = ''{"jsonrpc":"2.0","id":1,"method":"ping"}'' @ [LF]\<close>




text \<open>A request in the header framing, and a request line whose closing brace is missing.\<close>

definition sample_lsp_ping :: bytes where
  \<open>sample_lsp_ping =
     ''Content-Length: 40'' @ [CR, LF, CR, LF] @ ''{"jsonrpc":"2.0","id":2,"method":"ping"}''\<close>

definition sample_broken :: bytes where
  \<open>sample_broken = ''{"jsonrpc":"2.0","id":1,"method":"ping"'' @ [LF]\<close>

section \<open>Facts about reading\<close>

lemma readline_shorter: "inp \<noteq> [] \<Longrightarrow> length (snd (readline inp)) < length inp"
proof -
  assume ne: "inp \<noteq> []"
  show ?thesis
  proof (cases "dropWhile (\<lambda>c. c \<noteq> LF) inp")
    case Nil
    show ?thesis using ne by (simp add: readline_def Nil)
  next
    case (Cons c rest)
    have "length (dropWhile (\<lambda>c. c \<noteq> LF) inp) \<le> length inp" by (rule length_dropWhile_le)
    then show ?thesis by (simp add: readline_def Cons)
  qed
qed

lemma readline_Nil_iff: "fst (readline inp) = [] \<longleftrightarrow> inp = []"
proof (cases "dropWhile (\<lambda>c. c \<noteq> LF) inp")
  case Nil
  show ?thesis by (simp add: readline_def Nil)
next
  case (Cons c rest)
  then have "inp \<noteq> []" by auto
  then show ?thesis by (simp add: readline_def Cons)
qed

lemma read_headers_le:
  "read_headers headers inp = Some (h, rest) \<Longrightarrow> length rest \<le> length inp"
proof (induction headers inp rule: read_headers.induct)
  case (1 headers inp)
  show ?case
  proof (cases "inp = []")
    case True
    with "1.prems" show ?thesis by (simp add: read_headers.simps)
  next
    case ne: False
    have sh: "length (snd (readline inp)) < length inp" using ne by (rule readline_shorter)
    show ?thesis
    proof (cases "is_blank_line (fst (readline inp))")
      case True
      with "1.prems" ne have "rest = snd (readline inp)"
        by (simp add: read_headers.simps [of headers inp])
      with sh show ?thesis by simp
    next
      case False
      with "1.prems" ne
      have "read_headers (add_header (fst (readline inp)) headers) (snd (readline inp)) = Some (h, rest)"
        by (simp add: read_headers.simps [of headers inp])
      with "1.IH" ne False have "length rest \<le> length (snd (readline inp))" by simp
      with sh show ?thesis by simp
    qed
  qed
qed

lemma read_lsp_from_le:
  "length (stdin (snd (read_lsp_from e first_line s))) \<le> length (stdin s)"
  by (auto simp: read_lsp_from_def Let_def split: option.splits dest: read_headers_le)

lemma read_message_shorter:
  assumes "fst (read_message e s) \<noteq> None"
  shows "length (stdin (snd (read_message e s))) < length (stdin s)"
proof -
  obtain first_line rest where rl: "readline (stdin s) = (first_line, rest)"
    by (cases "readline (stdin s)")
  from assms rl have fl: "first_line \<noteq> []"
    by (auto simp: read_message_def)
  with rl have "stdin s \<noteq> []" using readline_Nil_iff [of "stdin s"] by auto
  then have sh: "length rest < length (stdin s)" using readline_shorter [of "stdin s"] rl by simp
  show ?thesis
  proof (cases "looks_like_json first_line")
    case True
    with rl fl sh show ?thesis by (simp add: read_message_def)
  next
    case False
    have "length (stdin (snd (read_lsp_from e first_line
             (s\<lparr>stdin := rest, transport_mode := (case transport_mode s of None \<Rightarrow> Some Lsp | Some m \<Rightarrow> Some m)\<rparr>))))
          \<le> length rest"
      using read_lsp_from_le [of e first_line "s\<lparr>stdin := rest, transport_mode := (case transport_mode s of None \<Rightarrow> Some Lsp | Some m \<Rightarrow> Some m)\<rparr>"]
      by simp
    with rl fl sh False show ?thesis by (simp add: read_message_def)
  qed
qed

lemma stdin_write_message [simp]: "stdin (write_message p s) = stdin s"
  by (simp add: write_message_def write_lsp_def write_ndjson_def Let_def)

lemma mode_write_message [simp]: "transport_mode (write_message p s) = transport_mode s"
  by (simp add: write_message_def write_lsp_def write_ndjson_def Let_def)

lemma stdin_dispatch [simp]: "stdin (snd (dispatch e req i s)) = stdin s"
  by (simp add: dispatch_def Let_def write_result_def write_error_def split: sum.splits)

lemma stdin_handle [simp]: "stdin (snd (handle e req s)) = stdin s"
proof -
  have "stdin (snd (case dispatch e d i s of (stop, s') \<Rightarrow> (if stop then Break else Continue, s'))) = stdin s"
    for d i
    using stdin_dispatch [of e d i s] by (cases "dispatch e d i s") simp
  then show ?thesis
    by (simp add: handle_def split: json.splits option.splits)
qed

termination main
proof (relation "measure (\<lambda>(e, s). length (stdin s))")
  show "wf (measure (\<lambda>(e, s). length (stdin s)))" by simp
next
  fix e s req s1 s2
  assume nm: "\<not> no_message (fst (read_message e s))"
    and s1: "s1 = snd (read_message e s)"
    and s2: "s2 = snd (handle e req s1)"
  from nm have "fst (read_message e s) \<noteq> None" by (auto simp: no_message_def)
  then have "length (stdin s1) < length (stdin s)" unfolding s1 by (rule read_message_shorter)
  then show "((e, s2), (e, s)) \<in> measure (\<lambda>(e, s). length (stdin s))"
    by (simp add: s2)
qed

declare main.simps [simp del]

section \<open>Facts about the loop\<close>



lemma dispatch_writes:
  assumes "\<And>r. P (write_result i r s)" and "\<And>c m. P (write_error i c m s)"
  shows "P (snd (dispatch e d i s))"
  using assms by (simp add: dispatch_def Let_def split: sum.splits)







section \<open>Facts about the pump and about the cached framing\<close>

lemma pump_summarize_keeps:
  "dst (pump_summarize e pre s) = dst s \<and> tap (pump_summarize e pre s) = tap s"
proof -
  obtain l1 c1 where a: "sniff_and_summarize e pre (buf s) = (l1, c1)"
    by (cases "sniff_and_summarize e pre (buf s)")
  obtain l2 c2 where b:
    "sniff_and_summarize e pre (drop (the c1) (buf s)) = (l2, c2)"
    by (cases "sniff_and_summarize e pre (drop (the c1) (buf s))")
  show ?thesis
    by (simp add: pump_summarize_def a b Let_def)
qed

lemma pump_appends:
  "dst (pump e pre src s) = dst s @ src \<and> tap (pump e pre src s) = tap s @ src"
proof (induction src arbitrary: s)
  case Nil
  show ?case by simp
next
  case (Cons x src)
  show ?case
    by (simp add: Cons.IH pump_summarize_keeps)
qed

lemma mode_read_lsp_from [simp]:
  "transport_mode (snd (read_lsp_from e first_line s)) = transport_mode s"
  by (simp add: read_lsp_from_def Let_def split: option.splits prod.splits)

lemma stdout_read_lsp_from [simp]:
  "stdout (snd (read_lsp_from e first_line s)) = stdout s"
  by (simp add: read_lsp_from_def Let_def split: option.splits prod.splits)

lemma stdout_read_message [simp]: "stdout (snd (read_message e s)) = stdout s"
  by (cases "readline (stdin s)") (simp add: read_message_def)

lemma mode_read_message:
  "transport_mode (snd (read_message e s)) =
     (case readline (stdin s) of
        (first_line, rest) \<Rightarrow>
          if first_line = [] then transport_mode s
          else (case transport_mode s of
                  Some m \<Rightarrow> Some m
                | None \<Rightarrow> Some (if looks_like_json first_line then Ndjson else Lsp)))"
  by (cases "readline (stdin s)") (simp add: read_message_def split: option.splits)

lemma mode_sticky:
  "transport_mode s = Some m \<Longrightarrow> transport_mode (snd (read_message e s)) = Some m"
  by (cases "readline (stdin s)") (simp add: mode_read_message)

lemma mode_set_by_read:
  assumes "fst (read_message e s) \<noteq> None"
  shows "\<exists>m. transport_mode (snd (read_message e s)) = Some m"
proof -
  obtain first_line rest where rl: "readline (stdin s) = (first_line, rest)"
    by (cases "readline (stdin s)")
  from assms rl have "first_line \<noteq> []" by (auto simp: read_message_def)
  with rl show ?thesis by (simp add: mode_read_message split: option.splits)
qed

lemma mode_dispatch [simp]: "transport_mode (snd (dispatch e d i s)) = transport_mode s"
  by (rule dispatch_writes) (simp_all add: write_result_def write_error_def)

lemma mode_handle [simp]: "transport_mode (snd (handle e req s)) = transport_mode s"
proof -
  have "transport_mode (snd (case dispatch e d i s of (stop, s') \<Rightarrow> (if stop then Break else Continue, s')))
        = transport_mode s" for d i
    using mode_dispatch [of e d i s] by (cases "dispatch e d i s") simp
  then show ?thesis
    by (simp add: handle_def split: json.splits option.splits)
qed

lemma read_ignores_mode:
  "fst (read_message e (s\<lparr>transport_mode := m\<rparr>)) = fst (read_message e s)"
  by (cases "readline (stdin s)")
     (simp add: read_message_def read_lsp_from_def Let_def split: option.splits prod.splits)

lemma stdout_write_message:
  "stdout (write_message p s) =
     stdout s @ (if transport_mode s = Some Lsp
                 then ''Content-Length: '' @ show_nat (length (json_dumps p)) @ [CR, LF, CR, LF] @ json_dumps p
                 else json_dumps p @ [LF])"
  by (simp add: write_message_def write_lsp_def write_ndjson_def Let_def)

lemma main_modes:
  assumes "(req, s1, s2) \<in> set (fst (main e s))"
  shows "transport_mode s1 = transport_mode (snd (read_message e s))
       \<and> transport_mode s2 = transport_mode s1 \<and> transport_mode s1 \<noteq> None"
  using assms
proof (induction e s rule: main.induct)
  case (1 e s)
  show ?case
  proof (cases "no_message (fst (read_message e s))")
    case True
    with "1.prems" show ?thesis by (simp add: main.simps [of e s])
  next
    case False
    define r where "r = the (fst (read_message e s))"
    define t1 where "t1 = snd (read_message e s)"
    define t2 where "t2 = snd (handle e r t1)"
    from False have "fst (read_message e s) \<noteq> None" by (auto simp: no_message_def)
    then obtain m where m: "transport_mode t1 = Some m"
      using mode_set_by_read [of e s] by (auto simp: t1_def)
    have t2m: "transport_mode t2 = Some m" by (simp add: t2_def m)
    have here: "(req, s1, s2) = (r, t1, t2) \<Longrightarrow> ?thesis"
      using m t2m by (simp add: t1_def)
    show ?thesis
    proof (cases "fst (handle e r t1) = Crash \<or> fst (handle e r t1) = Break")
      case True
      with False "1.prems" have "(req, s1, s2) = (r, t1, t2)"
        by (auto simp: main.simps [of e s] Let_def r_def t1_def t2_def split: if_splits)
      then show ?thesis by (rule here)
    next
      case nb: False
      with False "1.prems" have "(req, s1, s2) = (r, t1, t2) \<or> (req, s1, s2) \<in> set (fst (main e t2))"
        by (auto simp: main.simps [of e s] Let_def r_def t1_def t2_def split: if_splits prod.splits)
      then show ?thesis
      proof
        assume "(req, s1, s2) = (r, t1, t2)"
        then show ?thesis by (rule here)
      next
        assume mem: "(req, s1, s2) \<in> set (fst (main e t2))"
        have ih: "transport_mode s1 = transport_mode (snd (read_message e t2))
           \<and> transport_mode s2 = transport_mode s1 \<and> transport_mode s1 \<noteq> None"
          using nb mem by (intro "1.IH" [OF False r_def t1_def t2_def]) auto
        have "transport_mode (snd (read_message e t2)) = Some m"
          using t2m by (rule mode_sticky)
        with ih m show ?thesis by (simp add: t1_def)
      qed
    qed
  qed
qed

lemma main_mixed:
  \<open>main sample_env (fresh (sample_ping @ sample_lsp_ping)) =
     ([(JObj [(''jsonrpc'', JStr ''2.0''), (''id'', JInt 1), (''method'', JStr ''ping'')],
        \<lparr>stdin = sample_lsp_ping, stdout = [], transport_mode = Some Ndjson\<rparr>,
        \<lparr>stdin = sample_lsp_ping, stdout = ''{"jsonrpc":"2.0","id":1,"result":{}}'' @ [LF],
          transport_mode = Some Ndjson\<rparr>),
       (JObj [(''jsonrpc'', JStr ''2.0''), (''id'', JInt 2), (''method'', JStr ''ping'')],
        \<lparr>stdin = [], stdout = ''{"jsonrpc":"2.0","id":1,"result":{}}'' @ [LF],
          transport_mode = Some Ndjson\<rparr>,
        \<lparr>stdin = [],
          stdout = ''{"jsonrpc":"2.0","id":1,"result":{}}'' @ [LF]
                   @ ''{"jsonrpc":"2.0","id":2,"result":{}}'' @ [LF],
          transport_mode = Some Ndjson\<rparr>)],
      EndOfInput,
      \<lparr>stdin = [],
        stdout = ''{"jsonrpc":"2.0","id":1,"result":{}}'' @ [LF]
                 @ ''{"jsonrpc":"2.0","id":2,"result":{}}'' @ [LF],
        transport_mode = Some Ndjson\<rparr>)\<close>
  by code_simp

lemma header_line_not_json:
  "read_ndjson_from sample_env (''Content-Length: 40'' @ [CR, LF]) = None"
  by code_simp

lemma main_no_message:
  assumes "fst (read_message e s) = None"
  shows "main e s = ([], EndOfInput, snd (read_message e s))"
  using assms by (simp add: main.simps [of e s] no_message_def)

lemma failed_decode_no_message:
  assumes rl: "readline (stdin s) = (line, rest)" and ne: "line \<noteq> []"
    and fail: "if looks_like_json line then json_loads e (text_strip line) = None
       else (\<exists>headers rest'.
               read_headers (if is_blank_line line then Map.empty else add_header line Map.empty) rest
                 = Some (headers, rest')
               \<and> 0 < content_length headers
               \<and> nat (content_length headers) \<le> length rest'
               \<and> json_loads e (take (nat (content_length headers)) rest') = None)"
  shows "fst (read_message e s) = None"
proof (cases "looks_like_json line")
  case True
  with fail rl ne show ?thesis by (simp add: read_message_def read_ndjson_from_def)
next
  case False
  with fail obtain headers rest' where
    h: "read_headers (if is_blank_line line then Map.empty else add_header line Map.empty) rest
          = Some (headers, rest')"
    and n: "0 < content_length headers" "nat (content_length headers) \<le> length rest'"
    and j: "json_loads e (take (nat (content_length headers)) rest') = None"
    by auto
  have "fst (read_lsp_from e line
          (s\<lparr>stdin := rest,
             transport_mode := (case transport_mode s of None \<Rightarrow> Some Lsp | Some m \<Rightarrow> Some m)\<rparr>)) = None"
    using h n j by (simp add: read_lsp_from_def Let_def)
  with False rl ne show ?thesis by (simp add: read_message_def)
qed

section \<open>Protocol negotiation\<close>


section \<open>One reply per request\<close>





section \<open>Unknown methods\<close>




section \<open>Tool calls\<close>




section \<open>The pump forwards every byte\<close>

text \<open>
  Claim C7. Whatever bytes the source delivers, one per read, the pump writes exactly
  these bytes, in order, to the destination and to the tee file, so the tee file equals
  what the destination received; and what the summaries find (they depend on the
  environment and on the prefix only) changes nothing of what is forwarded.
\<close>

theorem pump_forwards:
  "dst (pump e pre src pump_start) = src
   \<and> tap (pump e pre src pump_start) = dst (pump e pre src pump_start)
   \<and> dst (pump e pre src s) = dst s @ src
   \<and> tap (pump e pre src s) = tap s @ src
   \<and> dst (pump e pre src s) = dst (pump e' pre' src s)"
  using pump_appends [of e pre src pump_start] pump_appends [of e pre src s]
    pump_appends [of e' pre' src s]
  by (simp add: pump_start_def)

theorem pump_forwards_witness:
  "dst (pump sample_env ''C'' sample_ping pump_start) = sample_ping
   \<and> tap (pump sample_env ''C'' sample_ping pump_start) = sample_ping"
  using pump_forwards [of sample_env "''C''" sample_ping pump_start sample_env "''C''"]
  by simp

section \<open>The cached framing\<close>

text \<open>
  Claim C5, as stated, fails: a read does not use the cached framing. After a first
  message in the line framing, a second message in the header framing is decoded by the
  header rule (the loop handles the request with identifier 2), although the cached
  framing is \<open>ndjson\<close> and the line rule gives nothing on the header line.
\<close>

theorem second_message_own_framing:
  \<open>map fst (fst (main sample_env (fresh (sample_ping @ sample_lsp_ping)))) =
      [JObj [(''jsonrpc'', JStr ''2.0''), (''id'', JInt 1), (''method'', JStr ''ping'')],
       JObj [(''jsonrpc'', JStr ''2.0''), (''id'', JInt 2), (''method'', JStr ''ping'')]]
    \<and> map (\<lambda>p. transport_mode (fst (snd p))) (fst (main sample_env (fresh (sample_ping @ sample_lsp_ping))))
        = [Some Ndjson, Some Ndjson]
    \<and> read_ndjson_from sample_env (''Content-Length: 40'' @ [CR, LF]) = None\<close>
  by (intro conjI) (simp add: main_mixed, simp add: main_mixed, rule header_line_not_json)

text \<open>
  Claim C5, amended. The framing of the replies is fixed by the first read and never
  changes: in every pass of the loop \<open>TRANSPORT_MODE\<close> is set and equals its value after the
  first read (and the value it had before, if it was set), and every reply is encoded
  under it. What a read decodes does not depend on \<open>TRANSPORT_MODE\<close>: each read chooses
  its rule from the first line of the message.
\<close>

theorem reply_framing_fixed:
  assumes "(req, s1, s2) \<in> set (fst (main e s))"
  shows "transport_mode s1 = transport_mode (snd (read_message e s))
       \<and> transport_mode s2 = transport_mode s1
       \<and> transport_mode s1 \<noteq> None
       \<and> (\<forall>m. transport_mode s = Some m \<longrightarrow> transport_mode s1 = Some m)
       \<and> (\<forall>p. stdout (write_message p s1) =
              stdout s1 @ (if transport_mode s1 = Some Lsp
                           then ''Content-Length: '' @ show_nat (length (json_dumps p))
                                  @ [CR, LF, CR, LF] @ json_dumps p
                           else json_dumps p @ [LF]))
       \<and> (\<forall>t m. fst (read_message e (t\<lparr>transport_mode := m\<rparr>)) = fst (read_message e t))"
proof -
  have a: "transport_mode s1 = transport_mode (snd (read_message e s))
       \<and> transport_mode s2 = transport_mode s1 \<and> transport_mode s1 \<noteq> None"
    using assms by (rule main_modes)
  have b: "transport_mode s1 = Some m" if "transport_mode s = Some m" for m
    using a mode_sticky [OF that, of e] by simp
  show ?thesis
    using a b stdout_write_message read_ignores_mode by blast
qed

theorem reply_framing_fixed_witness:
  \<open>(JObj [(''jsonrpc'', JStr ''2.0''), (''id'', JInt 2), (''method'', JStr ''ping'')],
      \<lparr>stdin = [], stdout = ''{"jsonrpc":"2.0","id":1,"result":{}}'' @ [LF],
        transport_mode = Some Ndjson\<rparr>,
      \<lparr>stdin = [],
        stdout = ''{"jsonrpc":"2.0","id":1,"result":{}}'' @ [LF]
                 @ ''{"jsonrpc":"2.0","id":2,"result":{}}'' @ [LF],
        transport_mode = Some Ndjson\<rparr>)
      \<in> set (fst (main sample_env (fresh (sample_ping @ sample_lsp_ping))))
    \<and> transport_mode (snd (read_message sample_env (fresh (sample_ping @ sample_lsp_ping)))) = Some Ndjson\<close>
proof -
  let ?s1 = \<open>\<lparr>stdin = [], stdout = ''{"jsonrpc":"2.0","id":1,"result":{}}'' @ [LF],
        transport_mode = Some Ndjson\<rparr>\<close>
  let ?s2 = \<open>\<lparr>stdin = [],
        stdout = ''{"jsonrpc":"2.0","id":1,"result":{}}'' @ [LF]
                 @ ''{"jsonrpc":"2.0","id":2,"result":{}}'' @ [LF],
        transport_mode = Some Ndjson\<rparr>\<close>
  have mem: "(JObj [(''jsonrpc'', JStr ''2.0''), (''id'', JInt 2), (''method'', JStr ''ping'')], ?s1, ?s2)
      \<in> set (fst (main sample_env (fresh (sample_ping @ sample_lsp_ping))))"
    by (simp add: main_mixed)
  have "transport_mode ?s1 = transport_mode (snd (read_message sample_env (fresh (sample_ping @ sample_lsp_ping))))"
    using reply_framing_fixed [OF mem] by (rule conjunct1)
  then have "transport_mode (snd (read_message sample_env (fresh (sample_ping @ sample_lsp_ping)))) = Some Ndjson"
    by simp
  with mem show ?thesis by (rule conjI)
qed

section \<open>Decode failures\<close>

text \<open>
  Claim C4, as stated, fails for the server: a request line that is not valid JSON gets
  no reply and ends the loop; the valid request after it is never read.
\<close>

theorem broken_request_ends_loop:
  \<open>main sample_env (fresh (sample_broken @ sample_ping)) =
     ([], EndOfInput, \<lparr>stdin = sample_ping, stdout = [], transport_mode = Some Ndjson\<rparr>)\<close>
  by code_simp

text \<open>
  Claim C4, amended. When a complete envelope is read (a line starting with a brace or a
  bracket, or headers followed by a body of the announced length) and its body fails to
  decode, the server writes nothing and leaves its loop as at the end of the input,
  whether or not the message was a request. The proxy logs the failure and goes on: every
  byte is still forwarded.
\<close>

theorem decode_failure_ends_loop:
  assumes "readline (stdin s) = (line, rest)" and "line \<noteq> []"
    and "if looks_like_json line then json_loads e (text_strip line) = None
       else (\<exists>headers rest'.
               read_headers (if is_blank_line line then Map.empty else add_header line Map.empty) rest
                 = Some (headers, rest')
               \<and> 0 < content_length headers
               \<and> nat (content_length headers) \<le> length rest'
               \<and> json_loads e (take (nat (content_length headers)) rest') = None)"
    and "json_loads e data = None"
  shows "fst (main e s) = [] \<and> fst (snd (main e s)) = EndOfInput
       \<and> stdout (snd (snd (main e s))) = stdout s
       \<and> summarize_json_bytes e pre data = [(pre, JsonParseFailed)]
       \<and> dst (pump e pre src st) = dst st @ src \<and> tap (pump e pre src st) = tap st @ src"
proof -
  have "fst (read_message e s) = None"
    using assms(1,2,3) by (rule failed_decode_no_message)
  then have "main e s = ([], EndOfInput, snd (read_message e s))" by (rule main_no_message)
  then show ?thesis
    using assms(4) pump_appends [of e pre src st] by (simp add: summarize_json_bytes_def)
qed

theorem decode_failure_ends_loop_witness:
  "fst (main sample_env (fresh (sample_broken @ sample_ping))) = []
   \<and> fst (snd (main sample_env (fresh (sample_broken @ sample_ping)))) = EndOfInput
   \<and> stdout (snd (snd (main sample_env (fresh (sample_broken @ sample_ping))))) = []
   \<and> summarize_json_bytes sample_env ''C'' ''{bad'' = [(''C'', JsonParseFailed)]
   \<and> dst (pump sample_env ''C'' sample_broken pump_start) = sample_broken"
proof -
  have h1: "readline (stdin (fresh (sample_broken @ sample_ping))) = (sample_broken, sample_ping)"
    by code_simp
  have h2: "sample_broken \<noteq> []" by (simp add: sample_broken_def)
  have h3a: "looks_like_json sample_broken" by code_simp
  have h3b: "json_loads sample_env (text_strip sample_broken) = None" by code_simp
  have h3: "if looks_like_json sample_broken then json_loads sample_env (text_strip sample_broken) = None
       else (\<exists>headers rest'.
               read_headers (if is_blank_line sample_broken then Map.empty
                             else add_header sample_broken Map.empty) sample_ping
                 = Some (headers, rest')
               \<and> 0 < content_length headers
               \<and> nat (content_length headers) \<le> length rest'
               \<and> json_loads sample_env (take (nat (content_length headers)) rest') = None)"
    using h3a h3b by simp
  have h4: "json_loads sample_env ''{bad'' = None" by code_simp
  show ?thesis
    using decode_failure_ends_loop [OF h1 h2 h3 h4, of "''C''" sample_broken pump_start]
    by (simp add: fresh_def pump_start_def)
qed

end
